theory Spec2Isabelle
  imports Complex_Main
begin

section \<open>The objects the distance base class handles\<close>

text \<open>
  The module \<^verbatim>\<open>sktime/dists_kernels/numba/distances/base/_base.py\<close> defines the abstract
  class \<^verbatim>\<open>NumbaDistance\<close> with the entry points \<^verbatim>\<open>distance\<close> and \<^verbatim>\<open>distance_factory\<close>,
  the validator \<^verbatim>\<open>_validate_factory_timeseries\<close> and the abstract methods
  \<^verbatim>\<open>_distance_factory\<close> and \<^verbatim>\<open>_numba_distance\<close>.

  Python passes objects by reference. An argument is an address, and the heap gives the
  object stored there. The objects that can be passed as a time series are data objects:
  a numpy array (with its dtype, its shape and its elements in row-major order; its
  \<^verbatim>\<open>ndim\<close> is the length of the shape) or something that is not a numpy array (a list, a
  number, a string, \<^verbatim>\<open>None\<close>). The class never reads an element, so rounding of floats
  plays no role, and elements are real numbers: an array here is an array of numbers.
\<close>

type_synonym addr = nat

datatype pyval =
    NdArray (dtype: string) (shape: "nat list") (elems: "real list")
  | PyList "pyval list"
  | PyFloat real
  | PyInt int
  | PyStr string
  | PyNone

type_synonym heap = "addr \<Rightarrow> pyval"

text \<open>\<^verbatim>\<open>isinstance(x, np.ndarray)\<close> on the object itself.\<close>

fun is_ndarray :: "pyval \<Rightarrow> bool" where
  "is_ndarray (NdArray dt shp els) = True"
| "is_ndarray v = False"

text \<open>
  Keyword arguments (\<^verbatim>\<open>**kwargs\<close>) are a dictionary from names to objects, kept in
  insertion order.
\<close>

type_synonym kwargs = "(string \<times> addr) list"

subsection \<open>Exceptions\<close>

text \<open>
  The messages of the two \<^verbatim>\<open>ValueError\<close>s are f-strings with the offending object
  formatted in the middle (\<^verbatim>\<open>{x}\<close>). How an object is formatted belongs to the object's
  class, not to this module, so a message is kept as its pieces: literal text and the
  objects whose text stands between. \<open>render\<close> gives the final text for any way of
  writing objects out.
\<close>

datatype part = Lit string | Fmt pyval

fun render_part :: "(pyval \<Rightarrow> string) \<Rightarrow> part \<Rightarrow> string" where
  "render_part fmt (Lit s) = s"
| "render_part fmt (Fmt v) = fmt v"

definition render :: "(pyval \<Rightarrow> string) \<Rightarrow> part list \<Rightarrow> string" where
  "render fmt ps = concat (map (render_part fmt) ps)"

text \<open>
  Exceptions the interpreter raises by itself (a call that does not fit the signature, a
  missing attribute, calling something that is not callable) carry a reason instead of
  the interpreter's text, which changes between Python versions.
\<close>

datatype reason =
    Multiple_values string
  | Missing_arguments "string list"
  | No_attribute string
  | Not_callable
  | Bad_operand

text \<open>
  \<open>ValueError\<close> and \<open>RuntimeError\<close> are the two classes the module raises itself.
  \<open>OtherError c m\<close> is an exception of any other class \<open>c\<close>, as the code of a concrete
  metric or the compiler it calls may raise.
\<close>

datatype exc =
    ValueError "part list"
  | RuntimeError "part list"
  | TypeError reason
  | AttributeError reason
  | OtherError string "part list"

text \<open>
  Formatting an object can itself raise, and then no message comes to exist: Python
  evaluates the f-string before it builds the \<^verbatim>\<open>ValueError\<close>. Which objects refuse to be
  formatted, and with which exception, is decided by the interpreter and the object's
  class (an integer with too many digits, a list nested too deeply), so it is a parameter
  of the model: \<open>fx v = Some e\<close> when formatting \<open>v\<close> raises \<open>e\<close>, and \<open>None\<close> when it
  gives a text. numpy writes out an array of numbers without raising.
\<close>

type_synonym formatting = "pyval \<Rightarrow> exc option"

fun format_exc :: "formatting \<Rightarrow> pyval \<Rightarrow> exc option" where
  "format_exc fx (NdArray dt shp els) = None"
| "format_exc fx v = fx v"

text \<open>
  The message of line 101-104: two adjacent f-string literals, joined without a space.
\<close>

definition not_numpy_message :: "pyval \<Rightarrow> part list" where
  "not_numpy_message v =
     [Lit ''The array '', Fmt v,
      Lit '' is not a numpy array. Please ensure itis a 2d numpy and try again.'']"

text \<open>The message of line 107-111.\<close>

definition wrong_dims_message :: "pyval \<Rightarrow> part list" where
  "wrong_dims_message v =
     [Lit ''The array '', Fmt v,
      Lit '' has the incorrect number of dimensions.Ensure the array has exactly 2 dimensions and try again.'']"

text \<open>The message of line 77-81.\<close>

definition not_compiled_message :: "part list" where
  "not_compiled_message =
     [Lit ''The distance metric specified could not be no_pythoncompiled. Try again and if the problem persists raisean issue.'']"

subsection \<open>Runs: heap, events, outcome\<close>

text \<open>
  A call returns the heap it leaves, the events it went through, and its outcome: an
  exception (\<open>Inl\<close>) or a value (\<open>Inr\<close>). The events record what a caller cannot see in
  the outcome alone: which calls were made, in which order, and what the validator
  inspected.
\<close>

datatype event =
    Isinstance_ndarray addr
  | Get_ndim addr
  | Format_value addr
  | Call_validate addr
  | Call_factory addr addr kwargs
  | Call_callable addr addr

type_synonym 'a run = "heap \<times> event list \<times> (exc + 'a)"

definition heap_after :: "'a run \<Rightarrow> heap" where
  "heap_after r = fst r"

definition events :: "'a run \<Rightarrow> event list" where
  "events r = fst (snd r)"

definition outcome :: "'a run \<Rightarrow> exc + 'a" where
  "outcome r = snd (snd r)"

fun validate_calls :: "event list \<Rightarrow> addr list" where
  "validate_calls [] = []"
| "validate_calls (Call_validate a # t) = a # validate_calls t"
| "validate_calls (e # t) = validate_calls t"

fun factory_calls :: "event list \<Rightarrow> (addr \<times> addr \<times> kwargs) list" where
  "factory_calls [] = []"
| "factory_calls (Call_factory a b kw # t) = (a, b, kw) # factory_calls t"
| "factory_calls (e # t) = factory_calls t"

subsection \<open>What a specializer returns, and what a method is called on\<close>

text \<open>
  The object a metric's \<^verbatim>\<open>_distance_factory\<close> returns. The module looks at it in two ways:
  \<^verbatim>\<open>hasattr(obj, "signatures")\<close>, the mark of a function numba has compiled, and the call
  \<^verbatim>\<open>obj(x, y)\<close>. Its identity (\<^verbatim>\<open>id(obj)\<close>) tells it from a copy. A call may read and
  change the heap, and raises \<^verbatim>\<open>TypeError\<close> when the object is not callable.

  Looking up the attribute \<^verbatim>\<open>signatures\<close> either finds it or raises: \<^verbatim>\<open>AttributeError\<close>
  when there is none, or whatever a property or \<^verbatim>\<open>__getattr__\<close> of the object raises.
\<close>

datatype lookup = Found | Raises exc

record pyobject =
  obj_id :: nat
  signatures_attr :: lookup
  py_call :: "heap \<Rightarrow> addr \<Rightarrow> addr \<Rightarrow> heap \<times> (exc + pyval)"

text \<open>
  \<^verbatim>\<open>hasattr(obj, "signatures")\<close>: true when the lookup finds the attribute, false when it
  raises \<^verbatim>\<open>AttributeError\<close>; any other exception of the lookup passes through.
\<close>

definition hasattr_signatures :: "pyobject \<Rightarrow> exc + bool" where
  "hasattr_signatures obj =
     (case signatures_attr obj of
        Found \<Rightarrow> Inr True
      | Raises (AttributeError r) \<Rightarrow> Inr False
      | Raises e \<Rightarrow> Inl e)"

text \<open>
  \<^verbatim>\<open>_distance_factory\<close> is abstract: its body is whatever the concrete metric defines. It
  receives the heap, \<open>x\<close>, \<open>y\<close> and the keyword arguments, and raises or returns an object.
\<close>

type_synonym specializer = "heap \<Rightarrow> addr \<Rightarrow> addr \<Rightarrow> kwargs \<Rightarrow> heap \<times> (exc + pyobject)"

text \<open>
  The \<^verbatim>\<open>self\<close> of \<^verbatim>\<open>distance_factory\<close>: an instance of a concrete metric, which has the
  method \<^verbatim>\<open>_distance_factory\<close>, or, when the function is called through the class with a
  data object in first position, that object.
\<close>

datatype receiver = Metric specializer | Ref addr

text \<open>The attribute lookup \<^verbatim>\<open>self._distance_factory\<close>; data objects have no such attribute.\<close>

fun get_distance_factory :: "receiver \<Rightarrow> exc + specializer" where
  "get_distance_factory (Metric df) = Inr df"
| "get_distance_factory (Ref a) = Inl (AttributeError (No_attribute ''_distance_factory''))"

section \<open>The validator\<close>

text \<open>
  \<^verbatim>\<open>_validate_factory_timeseries(x)\<close>, lines 85-111: first the type test, then, only for a
  numpy array, the test of \<^verbatim>\<open>x.ndim\<close>. It returns \<^verbatim>\<open>None\<close> when both pass. Before either
  \<^verbatim>\<open>ValueError\<close> is raised its message is built, which formats \<^verbatim>\<open>x\<close>; an exception of the
  formatting leaves the validator in place of the \<^verbatim>\<open>ValueError\<close>.
\<close>

definition validate_factory_timeseries :: "formatting \<Rightarrow> heap \<Rightarrow> addr \<Rightarrow> unit run" where
  "validate_factory_timeseries fx h x =
     (if \<not> is_ndarray (h x)
      then (case format_exc fx (h x) of
              Some e \<Rightarrow> (h, [Isinstance_ndarray x, Format_value x], Inl e)
            | None \<Rightarrow>
                (h, [Isinstance_ndarray x, Format_value x],
                 Inl (ValueError (not_numpy_message (h x)))))
      else if length (shape (h x)) \<noteq> 2
      then (case format_exc fx (h x) of
              Some e \<Rightarrow> (h, [Isinstance_ndarray x, Get_ndim x, Format_value x], Inl e)
            | None \<Rightarrow>
                (h, [Isinstance_ndarray x, Get_ndim x, Format_value x],
                 Inl (ValueError (wrong_dims_message (h x)))))
      else (h, [Isinstance_ndarray x, Get_ndim x], Inr ()))"

section \<open>The facade\<close>

text \<open>
  \<^verbatim>\<open>distance_factory(self, x, y, **kwargs)\<close>, lines 33-83: validate \<open>x\<close>, validate \<open>y\<close>,
  call \<^verbatim>\<open>self._distance_factory(x, y, **kwargs)\<close>, raise \<^verbatim>\<open>RuntimeError\<close> when the result
  has no attribute \<^verbatim>\<open>signatures\<close>, and return the result otherwise. An exception leaves
  the function where it is raised, also one raised inside \<^verbatim>\<open>hasattr\<close>: there is no \<^verbatim>\<open>try\<close>
  in the module.
\<close>

definition distance_factory ::
    "formatting \<Rightarrow> receiver \<Rightarrow> heap \<Rightarrow> addr \<Rightarrow> addr \<Rightarrow> kwargs \<Rightarrow> pyobject run" where
  "distance_factory fx self h x y kwargs =
     (case validate_factory_timeseries fx h x of
        (h1, t1, Inl e) \<Rightarrow> (h1, Call_validate x # t1, Inl e)
      | (h1, t1, Inr u1) \<Rightarrow>
     (case validate_factory_timeseries fx h1 y of
        (h2, t2, Inl e) \<Rightarrow> (h2, Call_validate x # t1 @ Call_validate y # t2, Inl e)
      | (h2, t2, Inr u2) \<Rightarrow>
     (case get_distance_factory self of
        Inl e \<Rightarrow> (h2, Call_validate x # t1 @ Call_validate y # t2, Inl e)
      | Inr df \<Rightarrow>
     (case df h2 x y kwargs of
        (h3, Inl e) \<Rightarrow>
          (h3, Call_validate x # t1 @ Call_validate y # t2 @ [Call_factory x y kwargs], Inl e)
      | (h3, Inr no_python_callable) \<Rightarrow>
     (case hasattr_signatures no_python_callable of
        Inl e \<Rightarrow>
          (h3, Call_validate x # t1 @ Call_validate y # t2 @ [Call_factory x y kwargs], Inl e)
      | Inr marked \<Rightarrow>
          (if \<not> marked
           then (h3, Call_validate x # t1 @ Call_validate y # t2 @ [Call_factory x y kwargs],
                 Inl (RuntimeError not_compiled_message))
           else (h3, Call_validate x # t1 @ Call_validate y # t2 @ [Call_factory x y kwargs],
                 Inr no_python_callable)))))))"

text \<open>
  How Python binds the call \<^verbatim>\<open>f(a, b, **kwargs)\<close> to the parameters of a function: the
  positional arguments fill the first parameters; then each keyword, in order, either
  names a parameter (an error when that one is already filled) or goes to the function's
  own \<^verbatim>\<open>**kwargs\<close>.
\<close>

fun bind_keywords ::
    "string list \<Rightarrow> (string \<rightharpoonup> addr) \<Rightarrow> kwargs \<Rightarrow> exc + ((string \<rightharpoonup> addr) \<times> kwargs)" where
  "bind_keywords params bound [] = Inr (bound, [])"
| "bind_keywords params bound ((k, v) # kws) =
     (if k \<in> set params
      then (if bound k \<noteq> None then Inl (TypeError (Multiple_values k))
            else bind_keywords params (bound(k \<mapsto> v)) kws)
      else (case bind_keywords params bound kws of
              Inl e \<Rightarrow> Inl e
            | Inr (bound', extra) \<Rightarrow> Inr (bound', (k, v) # extra)))"

text \<open>
  \<^verbatim>\<open>distance(x, y, **kwargs)\<close>, lines 12-31, is a static method: it has no \<^verbatim>\<open>self\<close>. A call
  with the operands \<^verbatim>\<open>x\<close>, \<^verbatim>\<open>y\<close> and some keywords is first bound to its own parameters
  \<^verbatim>\<open>(x, y, **kwargs)\<close>: a keyword named \<^verbatim>\<open>x\<close> or \<^verbatim>\<open>y\<close> is a \<^verbatim>\<open>TypeError\<close> there, and the
  other keywords are the \<^verbatim>\<open>kwargs\<close> of the body.

  Line 30 takes \<^verbatim>\<open>distance_factory\<close> from the class, where it is a plain function with the
  parameters \<^verbatim>\<open>(self, x, y, **kwargs)\<close>, and calls it with the two positional arguments
  \<^verbatim>\<open>x\<close> and \<^verbatim>\<open>y\<close> and the body's \<^verbatim>\<open>kwargs\<close>. So \<^verbatim>\<open>x\<close> fills \<^verbatim>\<open>self\<close>, \<^verbatim>\<open>y\<close> fills \<^verbatim>\<open>x\<close>, and
  the parameter \<^verbatim>\<open>y\<close> could be filled only by a keyword of that name; a parameter left
  unfilled is a \<^verbatim>\<open>TypeError\<close>. Line 31 calls the result on \<^verbatim>\<open>(x, y)\<close>.
\<close>

definition distance :: "formatting \<Rightarrow> heap \<Rightarrow> addr \<Rightarrow> addr \<Rightarrow> kwargs \<Rightarrow> pyval run" where
  "distance fx h x y keywords =
     (case bind_keywords [''x'', ''y''] [''x'' \<mapsto> x, ''y'' \<mapsto> y] keywords of
        Inl e \<Rightarrow> (h, [], Inl e)
      | Inr (own, kwargs) \<Rightarrow>
     (case bind_keywords [''self'', ''x'', ''y''] [''self'' \<mapsto> x, ''x'' \<mapsto> y] kwargs of
        Inl e \<Rightarrow> (h, [], Inl e)
      | Inr (bound, extra) \<Rightarrow>
     (case (bound ''self'', bound ''x'', bound ''y'') of
        (Some s, Some a, Some b) \<Rightarrow>
          (case distance_factory fx (Ref s) h a b extra of
             (h1, t1, Inl e) \<Rightarrow> (h1, t1, Inl e)
           | (h1, t1, Inr dist_callable) \<Rightarrow>
               (case py_call dist_callable h1 x y of
                  (h2, r) \<Rightarrow> (h2, t1 @ [Call_callable x y], r)))
      | _ \<Rightarrow>
          (h, [],
           Inl (TypeError (Missing_arguments
                  (filter (\<lambda>p. bound p = None) [''self'', ''x'', ''y''])))))))"

section \<open>Concrete inputs\<close>

text \<open>
  A heap with four objects: at 10 the series \<^verbatim>\<open>[[0, 1, 2]]\<close> and at 11 the series
  \<^verbatim>\<open>[[0, 0, 0]]\<close>, both two-dimensional; at 12 the one-dimensional array \<^verbatim>\<open>[0, 1, 2]\<close>; at
  13 the plain list \<^verbatim>\<open>[0, 1, 2]\<close>. Every other address holds \<^verbatim>\<open>None\<close>.
\<close>

definition example_heap :: heap where
  "example_heap =
     (\<lambda>a. PyNone)
       (10 := NdArray ''float64'' [1, 3] [0, 1, 2],
        11 := NdArray ''float64'' [1, 3] [0, 0, 0],
        12 := NdArray ''float64'' [3] [0, 1, 2],
        13 := PyList [PyInt 0, PyInt 1, PyInt 2])"

text \<open>
  A concrete metric, the sum of absolute differences: its compiled function adds up
  \<open>\<bar>x\<^sub>i - y\<^sub>i\<bar>\<close> over the elements, and its \<^verbatim>\<open>_distance_factory\<close> returns that function
  whatever the configuration.
\<close>

definition sad_call :: "heap \<Rightarrow> addr \<Rightarrow> addr \<Rightarrow> heap \<times> (exc + pyval)" where
  "sad_call h a b =
     (case (h a, h b) of
        (NdArray dta sa xs, NdArray dtb sb ys) \<Rightarrow>
          (h, Inr (PyFloat (sum_list (map2 (\<lambda>u v. \<bar>u - v\<bar>) xs ys))))
      | _ \<Rightarrow> (h, Inl (TypeError Bad_operand)))"

definition sad_compiled :: pyobject where
  "sad_compiled = \<lparr>obj_id = 1, signatures_attr = Found, py_call = sad_call\<rparr>"

definition sad_factory :: specializer where
  "sad_factory h x y kwargs = (h, Inr sad_compiled)"

text \<open>
  A metric whose \<^verbatim>\<open>_distance_factory\<close> returns the plain Python function, which numba
  has not compiled: it computes the same sum and has no \<^verbatim>\<open>signatures\<close>.
\<close>

definition sad_plain :: pyobject where
  "sad_plain =
     \<lparr>obj_id = 2, signatures_attr = Raises (AttributeError (No_attribute ''signatures'')),
      py_call = sad_call\<rparr>"

definition plain_factory :: specializer where
  "plain_factory h x y kwargs = (h, Inr sad_plain)"

text \<open>
  A metric whose \<^verbatim>\<open>_distance_factory\<close> raises an exception of the compiler's own class.
\<close>

definition raising_factory :: specializer where
  "raising_factory h x y kwargs =
     (h, Inl (OtherError ''TypingError'' [Lit ''Failed in nopython mode pipeline'']))"

text \<open>
  A metric whose \<^verbatim>\<open>_distance_factory\<close> returns an object with a property \<^verbatim>\<open>signatures\<close>
  that raises \<^verbatim>\<open>ZeroDivisionError\<close> when read.
\<close>

definition sad_broken :: pyobject where
  "sad_broken =
     \<lparr>obj_id = 3, signatures_attr = Raises (OtherError ''ZeroDivisionError'' [Lit ''division by zero'']),
      py_call = sad_call\<rparr>"

definition broken_factory :: specializer where
  "broken_factory h x y kwargs = (h, Inr sad_broken)"

text \<open>
  The integer \<^verbatim>\<open>10**4300\<close>, the smallest one with more than 4300 digits.
\<close>

definition big_int :: int where
  "big_int = 10 ^ 4300"

text \<open>
  A formatting as CPython has it by default since version 3.11: writing out an integer of
  more than 4300 digits raises \<^verbatim>\<open>ValueError\<close>, also inside a list; other objects are
  written out.
\<close>

definition digit_limit_message :: "part list" where
  "digit_limit_message =
     [Lit ''Exceeds the limit (4300 digits) for integer string conversion; use sys.set_int_max_str_digits() to increase the limit'']"

fun digit_limit_formatting :: formatting where
  "digit_limit_formatting (PyInt n) =
     (if big_int \<le> \<bar>n\<bar> then Some (ValueError digit_limit_message) else None)"
| "digit_limit_formatting (PyList vs) =
     (case filter (\<lambda>r. r \<noteq> None) (map digit_limit_formatting vs) of
        [] \<Rightarrow> None
      | r # rs \<Rightarrow> r)"
| "digit_limit_formatting v = None"

text \<open>
  The heap above with two more objects: at 14 the integer \<^verbatim>\<open>10**4300\<close>, at 15 the integer
  \<^verbatim>\<open>-10**4300\<close>.
\<close>

definition big_int_heap :: heap where
  "big_int_heap = example_heap (14 := PyInt big_int, 15 := PyInt (- big_int))"

section \<open>Basic facts\<close>

lemma validate_factory_timeseries_no_calls:
  "validate_calls (fst (snd (validate_factory_timeseries fx h x))) = []"
  "factory_calls (fst (snd (validate_factory_timeseries fx h x))) = []"
  by (simp_all add: validate_factory_timeseries_def split: option.splits)

lemma validate_calls_append: "validate_calls (s @ t) = validate_calls s @ validate_calls t"
  by (induction s rule: validate_calls.induct) simp_all

lemma factory_calls_append: "factory_calls (s @ t) = factory_calls s @ factory_calls t"
  by (induction s rule: factory_calls.induct) simp_all

text \<open>
  What the validator raises on an object that is not a numpy array, and on a numpy array:
  formatting an array of numbers never raises.
\<close>

lemma validate_factory_timeseries_not_ndarray:
  "\<not> is_ndarray (h x) \<Longrightarrow>
     validate_factory_timeseries fx h x =
       (h, [Isinstance_ndarray x, Format_value x],
        (case format_exc fx (h x) of
           Some e \<Rightarrow> Inl e
         | None \<Rightarrow> Inl (ValueError (not_numpy_message (h x)))))"
  by (simp add: validate_factory_timeseries_def split: option.splits)

lemma format_exc_ndarray: "is_ndarray v \<Longrightarrow> format_exc fx v = None"
  by (cases v) simp_all

lemma validate_factory_timeseries_ndarray:
  "h x = NdArray dt shp els \<Longrightarrow>
     validate_factory_timeseries fx h x =
       (if length shp \<noteq> 2
        then (h, [Isinstance_ndarray x, Get_ndim x, Format_value x],
              Inl (ValueError (wrong_dims_message (h x))))
        else (h, [Isinstance_ndarray x, Get_ndim x], Inr ()))"
  by (simp add: validate_factory_timeseries_def)

text \<open>
  \<open>distance_factory\<close> with the validator's three components named: the heap reaches the
  specializer as it was, and the events of the two validations come first.
\<close>

lemma distance_factory_unfold:
  "distance_factory fx self h x y kwargs =
     (case snd (snd (validate_factory_timeseries fx h x)) of
        Inl e \<Rightarrow> (h, Call_validate x # fst (snd (validate_factory_timeseries fx h x)), Inl e)
      | Inr u1 \<Rightarrow>
     (case snd (snd (validate_factory_timeseries fx h y)) of
        Inl e \<Rightarrow> (h, Call_validate x # fst (snd (validate_factory_timeseries fx h x)) @
                     Call_validate y # fst (snd (validate_factory_timeseries fx h y)), Inl e)
      | Inr u2 \<Rightarrow>
     (case get_distance_factory self of
        Inl e \<Rightarrow> (h, Call_validate x # fst (snd (validate_factory_timeseries fx h x)) @
                     Call_validate y # fst (snd (validate_factory_timeseries fx h y)), Inl e)
      | Inr df \<Rightarrow>
          (fst (df h x y kwargs),
           Call_validate x # fst (snd (validate_factory_timeseries fx h x)) @
             Call_validate y # fst (snd (validate_factory_timeseries fx h y)) @
             [Call_factory x y kwargs],
           (case snd (df h x y kwargs) of
              Inl e \<Rightarrow> Inl e
            | Inr c \<Rightarrow>
                (case hasattr_signatures c of
                   Inl e \<Rightarrow> Inl e
                 | Inr marked \<Rightarrow>
                     if marked then Inr c else Inl (RuntimeError not_compiled_message)))))))"
  by (simp add: distance_factory_def validate_factory_timeseries_def
           split: option.splits sum.splits prod.splits)

lemma example_heap_valid:
  "validate_factory_timeseries fx example_heap 10 =
     (example_heap, [Isinstance_ndarray 10, Get_ndim 10], Inr ())"
  "validate_factory_timeseries fx example_heap 11 =
     (example_heap, [Isinstance_ndarray 11, Get_ndim 11], Inr ())"
  by (simp_all add: validate_factory_timeseries_def example_heap_def)

lemma hasattr_examples:
  "hasattr_signatures sad_compiled = Inr True"
  "hasattr_signatures sad_plain = Inr False"
  "hasattr_signatures sad_broken =
     Inl (OtherError ''ZeroDivisionError'' [Lit ''division by zero''])"
  by (simp_all add: hasattr_signatures_def sad_compiled_def sad_plain_def sad_broken_def)

lemma big_int_pos: "0 < big_int"
  unfolding big_int_def by (rule zero_less_power) simp

lemma big_int_refused:
  "digit_limit_formatting (PyInt big_int) = Some (ValueError digit_limit_message)"
  "digit_limit_formatting (PyInt (- big_int)) = Some (ValueError digit_limit_message)"
  using big_int_pos by simp_all

lemma small_ints_formatted:
  "digit_limit_formatting (PyList [PyInt 0, PyInt 1, PyInt 2]) = None"
proof -
  have "(10::int) ^ 1 \<le> 10 ^ 4300" by (rule power_increasing) simp_all
  then have "10 \<le> big_int" by (simp only: big_int_def power_one_right)
  then have "\<not> big_int \<le> 0" "\<not> big_int \<le> 1" "\<not> big_int \<le> 2" by linarith+
  then show ?thesis by simp
qed

lemma big_int_heap_at:
  "big_int_heap 14 = PyInt big_int" "big_int_heap 15 = PyInt (- big_int)"
  by (simp_all add: big_int_heap_def)

section \<open>The one-shot entry point against the factory\<close>

text \<open>Binding keywords fails with \<^verbatim>\<open>TypeError\<close> only.\<close>

lemma bind_keywords_error:
  "bind_keywords ps b kws = Inl e \<Longrightarrow> \<exists>r. e = TypeError r"
  by (induction kws arbitrary: b e) (auto split: if_splits sum.splits)

text \<open>A keyword that reaches the function's own \<^verbatim>\<open>**kwargs\<close> names no parameter.\<close>

lemma bind_keywords_extra:
  "bind_keywords ps b kws = Inr (b', extra) \<Longrightarrow> k \<in> set ps \<Longrightarrow> k \<notin> fst ` set extra"
proof (induction ps b kws arbitrary: b' extra rule: bind_keywords.induct)
  case (1 params bound)
  then show ?case by simp
next
  case (2 params bound k' v kws)
  show ?case
  proof (cases "k' \<in> set params")
    case True
    with "2.prems" have step: "bind_keywords params (bound(k' \<mapsto> v)) kws = Inr (b', extra)"
      and unfilled: "\<not> bound k' \<noteq> None"
      by (simp_all split: if_splits)
    from "2.IH"(1) [OF True unfilled step "2.prems"(2)] show ?thesis .
  next
    case False
    with "2.prems" obtain rest where
      rest: "bind_keywords params bound kws = Inr (b', rest)" and extra: "extra = (k', v) # rest"
      by (auto split: sum.splits)
    from "2.IH"(2) [OF False rest "2.prems"(2)] False "2.prems"(2) extra
    show ?thesis by auto
  qed
qed

text \<open>A parameter that no keyword names stays as the positional arguments left it.\<close>

lemma bind_keywords_untouched:
  "bind_keywords ps b kws = Inr (b', extra) \<Longrightarrow> k \<notin> fst ` set kws \<Longrightarrow> b' k = b k"
proof (induction ps b kws arbitrary: b' extra rule: bind_keywords.induct)
  case (1 params bound)
  then show ?case by simp
next
  case (2 params bound k' v kws)
  from "2.prems"(2) have neq: "k \<noteq> k'" and rest_keys: "k \<notin> fst ` set kws" by auto
  show ?case
  proof (cases "k' \<in> set params")
    case True
    with "2.prems" have step: "bind_keywords params (bound(k' \<mapsto> v)) kws = Inr (b', extra)"
      and unfilled: "\<not> bound k' \<noteq> None"
      by (simp_all split: if_splits)
    from "2.IH"(1) [OF True unfilled step rest_keys] have "b' k = (bound(k' \<mapsto> v)) k" .
    with neq show ?thesis by simp
  next
    case False
    with "2.prems" obtain rest where
      rest: "bind_keywords params bound kws = Inr (b', rest)"
      by (auto split: sum.splits)
    from "2.IH"(2) [OF False rest rest_keys] show ?thesis .
  qed
qed

text \<open>
  So \<open>distance\<close> never returns a number, whatever the formatting, the heap, the operands
  and the keywords: it always raises \<^verbatim>\<open>TypeError\<close>, at its own call or at the call of line
  30, where the parameter \<^verbatim>\<open>y\<close> of \<^verbatim>\<open>distance_factory\<close> cannot be filled.
\<close>

lemma distance_never_returns:
  "\<exists>r. distance fx h x y keywords = (h, [], Inl (TypeError r))"
proof (cases "bind_keywords [''x'', ''y''] [''x'' \<mapsto> x, ''y'' \<mapsto> y] keywords")
  case (Inl e)
  then show ?thesis using bind_keywords_error [OF Inl] by (auto simp add: distance_def)
next
  case (Inr p)
  obtain own kwargs where p: "p = (own, kwargs)" by (cases p)
  have no_y: "''y'' \<notin> fst ` set kwargs"
    using bind_keywords_extra [OF Inr [unfolded p], of "''y''"] by simp
  show ?thesis
  proof (cases "bind_keywords [''self'', ''x'', ''y''] [''self'' \<mapsto> x, ''x'' \<mapsto> y] kwargs")
    case e: (Inl e)
    then show ?thesis
      using bind_keywords_error [OF e] Inr p by (auto simp add: distance_def)
  next
    case q: (Inr q)
    obtain bound extra where q': "q = (bound, extra)" by (cases q)
    have "bound ''y'' = None"
      using bind_keywords_untouched [OF q [unfolded q'] no_y] by simp
    with Inr p q q' show ?thesis
      by (simp add: distance_def split: option.splits)
  qed
qed

text \<open>
  Claim C1 says that \<^verbatim>\<open>distance(x, y, **kwargs)\<close> returns the number that the callable of
  \<^verbatim>\<open>distance_factory(x, y, **kwargs)\<close> returns on \<^verbatim>\<open>(x, y)\<close>, and that it succeeds whenever
  the factory does. The code does not do that. For the sum of absolute differences on
  \<^verbatim>\<open>x = [[0, 1, 2]]\<close> and \<^verbatim>\<open>y = [[0, 0, 0]]\<close> with no keyword argument, the factory called on
  the metric returns the compiled function, which gives 3 on \<^verbatim>\<open>(x, y)\<close>, while \<open>distance\<close>
  raises \<^verbatim>\<open>TypeError\<close>: it is a static method that calls the function
  \<^verbatim>\<open>NumbaDistance.distance_factory\<close> with two positional arguments, so the parameter \<^verbatim>\<open>y\<close>
  stays unfilled.
\<close>

theorem distance_raises_where_factory_answers:
  "outcome (distance fx example_heap 10 11 []) = Inl (TypeError (Missing_arguments [''y'']))
   \<and> outcome (distance_factory fx (Metric sad_factory) example_heap 10 11 []) = Inr sad_compiled
   \<and> py_call sad_compiled example_heap 10 11 = (example_heap, Inr (PyFloat 3))"
proof (intro conjI)
  show "outcome (distance fx example_heap 10 11 []) = Inl (TypeError (Missing_arguments [''y'']))"
    by (simp add: distance_def outcome_def)
  show "outcome (distance_factory fx (Metric sad_factory) example_heap 10 11 []) =
      Inr sad_compiled"
    by (simp add: distance_factory_unfold example_heap_valid outcome_def sad_factory_def
          hasattr_examples)
  show "py_call sad_compiled example_heap 10 11 = (example_heap, Inr (PyFloat 3))"
    by (simp add: sad_compiled_def sad_call_def example_heap_def)
qed

section \<open>The check after specialization\<close>

text \<open>
  Claim C2. When both operands are valid and the metric's \<^verbatim>\<open>_distance_factory\<close> returns an
  object for which \<^verbatim>\<open>hasattr(obj, "signatures")\<close> is false, \<open>distance_factory\<close> raises the
  \<^verbatim>\<open>RuntimeError\<close> of line 77, which is no \<^verbatim>\<open>ValueError\<close>, after calling the specializer
  exactly once. Whether or not the operands are valid, it never returns an object for
  which \<^verbatim>\<open>hasattr\<close> is not true. And every call, on any receiver, either raises or returns
  an object that has the attribute.
\<close>

theorem unspecialized_result_raises_runtime_error:
  "(outcome (validate_factory_timeseries fx h x) = Inr () \<longrightarrow>
    outcome (validate_factory_timeseries fx h y) = Inr () \<longrightarrow>
    snd (df h x y kwargs) = Inr obj \<longrightarrow> hasattr_signatures obj = Inr False \<longrightarrow>
      outcome (distance_factory fx (Metric df) h x y kwargs) =
        Inl (RuntimeError not_compiled_message)
      \<and> (\<forall>m. outcome (distance_factory fx (Metric df) h x y kwargs) \<noteq> Inl (ValueError m))
      \<and> factory_calls (events (distance_factory fx (Metric df) h x y kwargs)) =
          [(x, y, kwargs)])
   \<and> (snd (df h x y kwargs) = Inr obj \<longrightarrow> hasattr_signatures obj \<noteq> Inr True \<longrightarrow>
      outcome (distance_factory fx (Metric df) h x y kwargs) \<noteq> Inr obj)
   \<and> ((\<exists>e. outcome (distance_factory fx self h x y kwargs) = Inl e)
      \<or> (\<exists>f. outcome (distance_factory fx self h x y kwargs) = Inr f
            \<and> hasattr_signatures f = Inr True))"
proof (intro conjI impI)
  assume "outcome (validate_factory_timeseries fx h x) = Inr ()"
    "outcome (validate_factory_timeseries fx h y) = Inr ()"
    "snd (df h x y kwargs) = Inr obj" "hasattr_signatures obj = Inr False"
  then show
    "outcome (distance_factory fx (Metric df) h x y kwargs) =
       Inl (RuntimeError not_compiled_message)"
    "\<forall>m. outcome (distance_factory fx (Metric df) h x y kwargs) \<noteq> Inl (ValueError m)"
    "factory_calls (events (distance_factory fx (Metric df) h x y kwargs)) = [(x, y, kwargs)]"
    by (simp_all add: distance_factory_unfold outcome_def events_def factory_calls_append
          validate_factory_timeseries_no_calls)
next
  assume "snd (df h x y kwargs) = Inr obj" "hasattr_signatures obj \<noteq> Inr True"
  then show "outcome (distance_factory fx (Metric df) h x y kwargs) \<noteq> Inr obj"
    by (auto simp add: distance_factory_unfold outcome_def split: sum.splits if_splits)
next
  show "(\<exists>e. outcome (distance_factory fx self h x y kwargs) = Inl e)
      \<or> (\<exists>f. outcome (distance_factory fx self h x y kwargs) = Inr f
            \<and> hasattr_signatures f = Inr True)"
    by (auto simp add: distance_factory_unfold outcome_def split: sum.splits)
qed

theorem unspecialized_result_raises_runtime_error_witness:
  "outcome (validate_factory_timeseries digit_limit_formatting example_heap 10) = Inr ()
   \<and> outcome (validate_factory_timeseries digit_limit_formatting example_heap 11) = Inr ()
   \<and> snd (plain_factory example_heap 10 11 []) = Inr sad_plain
   \<and> hasattr_signatures sad_plain = Inr False
   \<and> outcome (distance_factory digit_limit_formatting (Metric plain_factory) example_heap 10 11 []) =
       Inl (RuntimeError not_compiled_message)
   \<and> outcome (distance_factory digit_limit_formatting (Metric plain_factory) example_heap 10 11 []) \<noteq>
       Inr sad_plain
   \<and> factory_calls
        (events (distance_factory digit_limit_formatting (Metric plain_factory) example_heap 10 11 [])) =
       [(10, 11, [])]"
  using unspecialized_result_raises_runtime_error
    [where fx = digit_limit_formatting and h = example_heap and x = 10 and y = 11
       and df = plain_factory and kwargs = "[]" and obj = sad_plain
       and self = "Metric plain_factory"]
  by (simp add: example_heap_valid outcome_def plain_factory_def hasattr_examples)

section \<open>What the validator rejects\<close>

text \<open>
  Claim C3. For a numpy array whose number of dimensions is not two, the validator raises
  the \<^verbatim>\<open>ValueError\<close> of line 107 (the wrong-rank error). Passed to \<open>distance_factory\<close> as
  \<open>x\<close>, it makes the call raise that same error; passed as \<open>y\<close>, it makes the call raise;
  in both positions the events of the call hold no call of \<^verbatim>\<open>_distance_factory\<close>.
\<close>

theorem wrong_rank_rejected_before_specializer:
  "h x = NdArray dt shp els \<Longrightarrow> length shp \<noteq> 2 \<Longrightarrow>
     outcome (validate_factory_timeseries fx h x) = Inl (ValueError (wrong_dims_message (h x)))
     \<and> outcome (distance_factory fx self h x y kwargs) =
         Inl (ValueError (wrong_dims_message (h x)))
     \<and> factory_calls (events (distance_factory fx self h x y kwargs)) = []
     \<and> (\<exists>e. outcome (distance_factory fx self h y x kwargs) = Inl e)
     \<and> factory_calls (events (distance_factory fx self h y x kwargs)) = []"
  by (auto simp add: distance_factory_unfold outcome_def events_def factory_calls_append
        validate_factory_timeseries_no_calls validate_factory_timeseries_ndarray
        split: sum.splits)

theorem wrong_rank_rejected_before_specializer_witness:
  "example_heap 12 = NdArray ''float64'' [3] [0, 1, 2] \<and> length [3::nat] \<noteq> 2
   \<and> outcome (validate_factory_timeseries digit_limit_formatting example_heap 12) =
        Inl (ValueError (wrong_dims_message (NdArray ''float64'' [3] [0, 1, 2])))
   \<and> outcome (distance_factory digit_limit_formatting (Metric sad_factory) example_heap 12 11 []) =
        Inl (ValueError (wrong_dims_message (NdArray ''float64'' [3] [0, 1, 2])))
   \<and> factory_calls
        (events (distance_factory digit_limit_formatting (Metric sad_factory) example_heap 12 11 [])) = []
   \<and> outcome (distance_factory digit_limit_formatting (Metric sad_factory) example_heap 11 12 []) =
        Inl (ValueError (wrong_dims_message (NdArray ''float64'' [3] [0, 1, 2])))
   \<and> factory_calls
        (events (distance_factory digit_limit_formatting (Metric sad_factory) example_heap 11 12 [])) = []"
  using wrong_rank_rejected_before_specializer
    [where fx = digit_limit_formatting and h = example_heap and x = 12 and dt = "''float64''"
       and shp = "[3]" and els = "[0, 1, 2]" and self = "Metric sad_factory" and y = 11
       and kwargs = "[]"]
  by (simp add: example_heap_def distance_factory_unfold validate_factory_timeseries_def
        outcome_def)

text \<open>
  The two messages end differently (\<^verbatim>\<open>...numpy and try again.\<close> against
  \<^verbatim>\<open>...dimensions and try again.\<close>), so their texts differ however the objects in them are
  written out.
\<close>

lemma suffix_mismatch:
  assumes "take n (rev b1) \<noteq> take n (rev b2)" "n \<le> length b1" "n \<le> length b2"
  shows "s1 @ b1 \<noteq> s2 @ b2"
proof
  assume "s1 @ b1 = s2 @ b2"
  then have "take n (rev (s1 @ b1)) = take n (rev (s2 @ b2))" by simp
  with assms show False by simp
qed

lemma messages_differ:
  "render fmt (not_numpy_message v) \<noteq> render fmt (wrong_dims_message w)"
  unfolding render_def not_numpy_message_def wrong_dims_message_def
  by (simp del: append_eq_append_conv_if add: suffix_mismatch [where n = 16])

text \<open>
  The integer \<^verbatim>\<open>10**4300\<close> is not a numpy array, and the validator does not raise the
  wrong-type error for it: building the message of line 102 formats the integer, which
  raises the interpreter's own \<^verbatim>\<open>ValueError\<close> about the digit limit.
\<close>

theorem unformattable_object_not_wrong_type:
  "\<not> is_ndarray (big_int_heap 14)
   \<and> outcome (validate_factory_timeseries digit_limit_formatting big_int_heap 14) =
       Inl (ValueError digit_limit_message)
   \<and> ValueError digit_limit_message \<noteq> ValueError (not_numpy_message (big_int_heap 14))"
  by (simp add: validate_factory_timeseries_not_ndarray big_int_heap_at big_int_refused
        outcome_def digit_limit_message_def not_numpy_message_def
        del: digit_limit_formatting.simps)

text \<open>
  Claim C4, as the code has it. For an object that is not a numpy array and that can be
  formatted into the message, the validator raises the \<^verbatim>\<open>ValueError\<close> of line 101 (the
  wrong-type error); when formatting the object raises, that exception leaves the
  validator instead. The wrong-type and the wrong-rank error have the same class,
  \<^verbatim>\<open>ValueError\<close>. A caller tells them apart by the message only: the wrong-type error is
  never what validating a numpy array gives, and its text is never the text of a
  wrong-rank message, for any two objects and any way of writing them out.
\<close>

theorem wrong_type_rejected_with_own_message:
  "\<not> is_ndarray (h x) \<Longrightarrow>
     outcome (validate_factory_timeseries fx h x) =
       (case format_exc fx (h x) of
          Some e \<Rightarrow> Inl e
        | None \<Rightarrow> Inl (ValueError (not_numpy_message (h x))))
     \<and> (\<forall>h' x'. is_ndarray (h' x') \<longrightarrow>
            outcome (validate_factory_timeseries fx h' x') \<noteq>
              Inl (ValueError (not_numpy_message (h x))))
     \<and> (\<forall>fmt w. render fmt (not_numpy_message (h x)) \<noteq> render fmt (wrong_dims_message w))"
proof (intro conjI allI impI)
  assume "\<not> is_ndarray (h x)"
  then show "outcome (validate_factory_timeseries fx h x) =
      (case format_exc fx (h x) of Some e \<Rightarrow> Inl e | None \<Rightarrow> Inl (ValueError (not_numpy_message (h x))))"
    by (simp add: validate_factory_timeseries_not_ndarray outcome_def)
next
  fix h' :: heap and x' :: addr
  assume "is_ndarray (h' x')"
  then obtain dt shp els where "h' x' = NdArray dt shp els" by (cases "h' x'") simp_all
  then show "outcome (validate_factory_timeseries fx h' x') \<noteq>
      Inl (ValueError (not_numpy_message (h x)))"
    by (simp add: validate_factory_timeseries_ndarray outcome_def not_numpy_message_def
          wrong_dims_message_def)
next
  fix fmt w
  show "render fmt (not_numpy_message (h x)) \<noteq> render fmt (wrong_dims_message w)"
    by (rule messages_differ)
qed

theorem wrong_type_rejected_with_own_message_witness:
  "\<not> is_ndarray (example_heap 13)
   \<and> digit_limit_formatting (example_heap 13) = None
   \<and> outcome (validate_factory_timeseries digit_limit_formatting example_heap 13) =
       Inl (ValueError (not_numpy_message (PyList [PyInt 0, PyInt 1, PyInt 2])))
   \<and> outcome (validate_factory_timeseries digit_limit_formatting example_heap 12) \<noteq>
       Inl (ValueError (not_numpy_message (example_heap 13)))
   \<and> render (\<lambda>v. ''[0, 1, 2]'') (not_numpy_message (example_heap 13)) \<noteq>
       render (\<lambda>v. ''[0, 1, 2]'') (wrong_dims_message (example_heap 12))"
proof -
  have at: "example_heap 13 = PyList [PyInt 0, PyInt 1, PyInt 2]"
    "example_heap 12 = NdArray ''float64'' [3] [0, 1, 2]"
    by (simp_all add: example_heap_def)
  show ?thesis
    using wrong_type_rejected_with_own_message
      [where h = example_heap and x = 13 and fx = digit_limit_formatting]
    by (simp add: at small_ints_formatted del: digit_limit_formatting.simps)
qed

text \<open>
  The integer \<^verbatim>\<open>-10**4300\<close>: the validator tests its type, starts to format it and stops
  there with the interpreter's \<^verbatim>\<open>ValueError\<close>; the wrong-type error is not raised.
\<close>

theorem unformattable_object_stops_at_formatting:
  "\<not> is_ndarray (big_int_heap 15)
   \<and> validate_factory_timeseries digit_limit_formatting big_int_heap 15 =
       (big_int_heap, [Isinstance_ndarray 15, Format_value 15],
        Inl (ValueError digit_limit_message))
   \<and> digit_limit_message \<noteq> not_numpy_message (big_int_heap 15)"
  by (simp add: validate_factory_timeseries_not_ndarray big_int_heap_at big_int_refused
        digit_limit_message_def not_numpy_message_def
        del: digit_limit_formatting.simps)

text \<open>
  Claim C9, as the code has it. The type test comes first: for an object that is not a
  numpy array the validator tests the type, formats the object for the message and
  raises, without reading \<^verbatim>\<open>ndim\<close>. What it raises is the wrong-type error when the object
  can be formatted, and the exception of the formatting otherwise.
\<close>

theorem type_check_precedes_rank_check:
  "\<not> is_ndarray (h x) \<Longrightarrow>
     events (validate_factory_timeseries fx h x) = [Isinstance_ndarray x, Format_value x]
     \<and> Get_ndim x \<notin> set (events (validate_factory_timeseries fx h x))
     \<and> outcome (validate_factory_timeseries fx h x) =
         (case format_exc fx (h x) of
            Some e \<Rightarrow> Inl e
          | None \<Rightarrow> Inl (ValueError (not_numpy_message (h x))))"
  by (simp add: validate_factory_timeseries_not_ndarray events_def outcome_def)

theorem type_check_precedes_rank_check_witness:
  "\<not> is_ndarray (example_heap 13)
   \<and> events (validate_factory_timeseries digit_limit_formatting example_heap 13) =
       [Isinstance_ndarray 13, Format_value 13]
   \<and> Get_ndim 13 \<notin> set (events (validate_factory_timeseries digit_limit_formatting example_heap 13))
   \<and> outcome (validate_factory_timeseries digit_limit_formatting example_heap 13) =
       Inl (ValueError (not_numpy_message (PyList [PyInt 0, PyInt 1, PyInt 2])))"
proof -
  have at: "example_heap 13 = PyList [PyInt 0, PyInt 1, PyInt 2]"
    by (simp add: example_heap_def)
  show ?thesis
    using type_check_precedes_rank_check
      [where h = example_heap and x = 13 and fx = digit_limit_formatting]
    by (simp add: at small_ints_formatted del: digit_limit_formatting.simps)
qed

text \<open>
  Claim C6. The validator changes nothing: the heap it leaves is the heap it was given,
  so the object validated (dtype, shape and elements) and every other object are as
  before, whether it raises or not.
\<close>

theorem validator_leaves_heap_unchanged:
  "heap_after (validate_factory_timeseries fx h x) = h"
  by (simp add: heap_after_def validate_factory_timeseries_def split: option.splits)

theorem validator_leaves_heap_unchanged_witness:
  "heap_after (validate_factory_timeseries digit_limit_formatting example_heap 12) = example_heap
   \<and> outcome (validate_factory_timeseries digit_limit_formatting example_heap 12) =
        Inl (ValueError (wrong_dims_message (NdArray ''float64'' [3] [0, 1, 2])))
   \<and> heap_after (validate_factory_timeseries digit_limit_formatting example_heap 10) = example_heap
   \<and> outcome (validate_factory_timeseries digit_limit_formatting example_heap 10) = Inr ()"
proof -
  have at: "example_heap 12 = NdArray ''float64'' [3] [0, 1, 2]"
    by (simp add: example_heap_def)
  show ?thesis
    using validator_leaves_heap_unchanged [of digit_limit_formatting example_heap 12]
      validator_leaves_heap_unchanged [of digit_limit_formatting example_heap 10]
    by (simp add: example_heap_valid outcome_def
          validate_factory_timeseries_ndarray [where h = example_heap and x = 12, OF at] at)
qed

section \<open>The order of the calls\<close>

text \<open>
  The events of a call of \<open>distance_factory\<close> on the metric of the sum of absolute
  differences, with the one-dimensional array as \<open>x\<close> and a valid series as \<open>y\<close>: the
  validator runs on \<open>x\<close>, raises, and is never called on \<open>y\<close>.
\<close>

theorem second_operand_not_validated_after_failure:
  "validate_calls
     (events (distance_factory digit_limit_formatting (Metric sad_factory) example_heap 12 11 [])) =
     [12]
   \<and> outcome (distance_factory digit_limit_formatting (Metric sad_factory) example_heap 12 11 []) =
        Inl (ValueError (wrong_dims_message (NdArray ''float64'' [3] [0, 1, 2])))"
  by (simp add: distance_factory_unfold validate_factory_timeseries_def example_heap_def
        events_def outcome_def)

text \<open>
  Claim C5, as the code has it. Every call of \<open>distance_factory\<close> starts with one call of
  the validator on \<open>x\<close>. When that raises, nothing else happens: \<open>y\<close> is not validated.
  When it succeeds, one call of the validator on \<open>y\<close> follows, as a check of its own. The
  metric's \<^verbatim>\<open>_distance_factory\<close> is called, once and last, exactly when both validations
  have succeeded (and the receiver is a metric).
\<close>

theorem distance_factory_call_order:
  "events (distance_factory fx self h x y kwargs) =
     Call_validate x # events (validate_factory_timeseries fx h x) @
     (case outcome (validate_factory_timeseries fx h x) of
        Inl e \<Rightarrow> []
      | Inr u \<Rightarrow>
          Call_validate y # events (validate_factory_timeseries fx h y) @
          (case outcome (validate_factory_timeseries fx h y) of
             Inl e \<Rightarrow> []
           | Inr u \<Rightarrow> (case self of Metric df \<Rightarrow> [Call_factory x y kwargs] | Ref a \<Rightarrow> [])))
   \<and> validate_calls (events (distance_factory fx self h x y kwargs)) =
       (case outcome (validate_factory_timeseries fx h x) of Inl e \<Rightarrow> [x] | Inr u \<Rightarrow> [x, y])
   \<and> factory_calls (events (distance_factory fx self h x y kwargs)) =
       (case outcome (validate_factory_timeseries fx h x) of
          Inl e \<Rightarrow> []
        | Inr u \<Rightarrow>
            (case outcome (validate_factory_timeseries fx h y) of
               Inl e \<Rightarrow> []
             | Inr u \<Rightarrow> (case self of Metric df \<Rightarrow> [(x, y, kwargs)] | Ref a \<Rightarrow> [])))"
  by (cases self)
    (simp_all add: distance_factory_unfold events_def outcome_def validate_calls_append
       factory_calls_append validate_factory_timeseries_no_calls split: sum.splits)

theorem distance_factory_call_order_witness:
  "events (distance_factory digit_limit_formatting (Metric sad_factory) example_heap 10 11 []) =
     [Call_validate 10, Isinstance_ndarray 10, Get_ndim 10,
      Call_validate 11, Isinstance_ndarray 11, Get_ndim 11,
      Call_factory 10 11 []]
   \<and> validate_calls
        (events (distance_factory digit_limit_formatting (Metric sad_factory) example_heap 10 11 [])) =
       [10, 11]
   \<and> factory_calls
        (events (distance_factory digit_limit_formatting (Metric sad_factory) example_heap 10 11 [])) =
       [(10, 11, [])]"
  using distance_factory_call_order
    [where fx = digit_limit_formatting and self = "Metric sad_factory" and h = example_heap
       and x = 10 and y = 11 and kwargs = "[]"]
  by (simp add: example_heap_valid events_def outcome_def)

section \<open>What a caller of the factory can observe\<close>

text \<open>
  A metric whose \<^verbatim>\<open>_distance_factory\<close> raises an exception of the compiler's class, on two
  valid series: \<open>distance_factory\<close> raises that very exception. It is none of the module's
  own errors, and nothing has wrapped it.
\<close>

theorem specializer_exception_escapes_unwrapped:
  "outcome (distance_factory digit_limit_formatting (Metric raising_factory) example_heap 10 11 []) =
     Inl (OtherError ''TypingError'' [Lit ''Failed in nopython mode pipeline''])"
  by (simp add: distance_factory_unfold example_heap_valid outcome_def raising_factory_def)

text \<open>
  Claim C7, as the code has it. A call of \<open>distance_factory\<close> on a metric ends in one of
  these ways: it returns the object the metric's \<^verbatim>\<open>_distance_factory\<close> returned, and that
  object has the attribute \<^verbatim>\<open>signatures\<close>; it raises the wrong-type \<^verbatim>\<open>ValueError\<close> for \<open>x\<close>
  or for \<open>y\<close>; it raises the wrong-rank \<^verbatim>\<open>ValueError\<close> for \<open>x\<close> or for \<open>y\<close>; it raises the
  \<^verbatim>\<open>RuntimeError\<close> of line 77; or it raises, unchanged, the exception of one of the three
  operations it runs and does not guard: formatting an operand that is not a numpy array
  for the message, the metric's \<^verbatim>\<open>_distance_factory\<close>, or the lookup of \<^verbatim>\<open>signatures\<close>
  inside \<^verbatim>\<open>hasattr\<close>.
\<close>

theorem distance_factory_outcomes:
  "(\<exists>f. outcome (distance_factory fx (Metric df) h x y kwargs) = Inr f
        \<and> hasattr_signatures f = Inr True \<and> snd (df h x y kwargs) = Inr f)
   \<or> outcome (distance_factory fx (Metric df) h x y kwargs) =
        Inl (ValueError (not_numpy_message (h x)))
   \<or> outcome (distance_factory fx (Metric df) h x y kwargs) =
        Inl (ValueError (not_numpy_message (h y)))
   \<or> outcome (distance_factory fx (Metric df) h x y kwargs) =
        Inl (ValueError (wrong_dims_message (h x)))
   \<or> outcome (distance_factory fx (Metric df) h x y kwargs) =
        Inl (ValueError (wrong_dims_message (h y)))
   \<or> outcome (distance_factory fx (Metric df) h x y kwargs) =
        Inl (RuntimeError not_compiled_message)
   \<or> (\<exists>e. format_exc fx (h x) = Some e
          \<and> outcome (distance_factory fx (Metric df) h x y kwargs) = Inl e)
   \<or> (\<exists>e. format_exc fx (h y) = Some e
          \<and> outcome (distance_factory fx (Metric df) h x y kwargs) = Inl e)
   \<or> (\<exists>e. snd (df h x y kwargs) = Inl e
          \<and> outcome (distance_factory fx (Metric df) h x y kwargs) = Inl e)
   \<or> (\<exists>obj e. snd (df h x y kwargs) = Inr obj \<and> hasattr_signatures obj = Inl e
          \<and> outcome (distance_factory fx (Metric df) h x y kwargs) = Inl e)"
proof (cases "is_ndarray (h x)")
  case False
  then show ?thesis
    by (cases "format_exc fx (h x)")
      (simp_all add: distance_factory_unfold outcome_def
         validate_factory_timeseries_not_ndarray)
next
  case x_array: True
  then obtain dt shp els where x: "h x = NdArray dt shp els" by (cases "h x") simp_all
  show ?thesis
  proof (cases "length shp = 2")
    case False
    with x show ?thesis
      by (simp add: distance_factory_unfold outcome_def validate_factory_timeseries_ndarray)
  next
    case x_ok: True
    show ?thesis
    proof (cases "is_ndarray (h y)")
      case False
      with x x_ok show ?thesis
        by (cases "format_exc fx (h y)")
          (simp_all add: distance_factory_unfold outcome_def
             validate_factory_timeseries_ndarray validate_factory_timeseries_not_ndarray)
    next
      case True
      then obtain dt' shp' els' where y: "h y = NdArray dt' shp' els'"
        by (cases "h y") simp_all
      show ?thesis
      proof (cases "length shp' = 2")
        case False
        with x x_ok y show ?thesis
          by (simp add: distance_factory_unfold outcome_def
                validate_factory_timeseries_ndarray)
      next
        case True
        with x x_ok y show ?thesis
          by (simp add: distance_factory_unfold outcome_def
                validate_factory_timeseries_ndarray split: sum.splits)
      qed
    qed
  qed
qed

theorem distance_factory_outcomes_witness:
  "outcome (distance_factory digit_limit_formatting (Metric sad_factory) example_heap 10 11 []) =
     Inr sad_compiled
   \<and> hasattr_signatures sad_compiled = Inr True
   \<and> snd (broken_factory example_heap 10 11 []) = Inr sad_broken
   \<and> hasattr_signatures sad_broken =
       Inl (OtherError ''ZeroDivisionError'' [Lit ''division by zero''])
   \<and> outcome (distance_factory digit_limit_formatting (Metric broken_factory) example_heap 10 11 []) =
       Inl (OtherError ''ZeroDivisionError'' [Lit ''division by zero''])"
  using distance_factory_outcomes
    [where fx = digit_limit_formatting and df = sad_factory and h = example_heap and x = 10
       and y = 11 and kwargs = "[]"]
  by (simp add: distance_factory_unfold example_heap_valid outcome_def sad_factory_def
        broken_factory_def hasattr_examples)

text \<open>
  Claim C10. When \<open>distance_factory\<close> returns an object, the receiver is a metric and the
  object is the one its \<^verbatim>\<open>_distance_factory\<close> returned for the same heap, operands and
  keyword arguments: same identity, same attribute, same behaviour. The heap is left as
  \<^verbatim>\<open>_distance_factory\<close> left it, and \<^verbatim>\<open>_distance_factory\<close> was called once.
\<close>

theorem distance_factory_returns_specializer_object:
  "outcome (distance_factory fx self h x y kwargs) = Inr f \<Longrightarrow>
     (\<exists>df. self = Metric df \<and> snd (df h x y kwargs) = Inr f
        \<and> heap_after (distance_factory fx self h x y kwargs) = fst (df h x y kwargs))
     \<and> factory_calls (events (distance_factory fx self h x y kwargs)) = [(x, y, kwargs)]"
  by (cases self)
    (auto simp add: distance_factory_unfold outcome_def heap_after_def events_def
       factory_calls_append validate_factory_timeseries_no_calls split: sum.splits if_splits)

theorem distance_factory_returns_specializer_object_witness:
  "outcome (distance_factory digit_limit_formatting (Metric sad_factory) example_heap 10 11 []) =
     Inr sad_compiled
   \<and> snd (sad_factory example_heap 10 11 []) = Inr sad_compiled
   \<and> heap_after (distance_factory digit_limit_formatting (Metric sad_factory) example_heap 10 11 []) =
       fst (sad_factory example_heap 10 11 [])
   \<and> factory_calls
        (events (distance_factory digit_limit_formatting (Metric sad_factory) example_heap 10 11 [])) =
       [(10, 11, [])]"
proof -
  have ok: "outcome (distance_factory digit_limit_formatting (Metric sad_factory) example_heap 10 11 []) =
      Inr sad_compiled"
    by (simp add: distance_factory_unfold example_heap_valid outcome_def sad_factory_def
          hasattr_examples)
  show ?thesis
    using ok distance_factory_returns_specializer_object
      [where fx = digit_limit_formatting and self = "Metric sad_factory" and h = example_heap
         and x = 10 and y = 11 and kwargs = "[]" and f = sad_compiled]
    by simp
qed

end
